theory Spec2Isabelle
  imports Main "HOL-Library.Word"
begin

unbundle bit_operations_syntax

section \<open>JavaScript numbers as far as WHRequestHandler uses them\<close>

text \<open>
  The handler computes with the results of \<^verbatim>\<open>Number(header[...])\<close> and of
  \<^verbatim>\<open>Date.now()\<close>. A header that is absent or not numeric converts to NaN, and the
  clock is a whole number of milliseconds. The model covers the numbers that are NaN or
  whole: a number is either \<open>NaN\<close> or an integer. Integers stand for doubles exactly
  as long as their magnitude stays below \<open>2 ^ 53\<close>, which holds for millisecond
  timestamps. Header values with a fractional part and magnitudes from \<open>2 ^ 53\<close> on,
  where doubles round, are outside the model; nothing below is stated about them.
\<close>

datatype jsnum = NaN | Num int

text \<open>\<^verbatim>\<open>a * b\<close> and \<^verbatim>\<open>a + b\<close>: NaN is contagious.\<close>

fun js_mul :: "jsnum \<Rightarrow> jsnum \<Rightarrow> jsnum" where
  "js_mul (Num a) (Num b) = Num (a * b)"
| "js_mul _ _ = NaN"

fun js_add :: "jsnum \<Rightarrow> jsnum \<Rightarrow> jsnum" where
  "js_add (Num a) (Num b) = Num (a + b)"
| "js_add _ _ = NaN"

fun js_sub :: "jsnum \<Rightarrow> jsnum \<Rightarrow> jsnum" where
  "js_sub (Num a) (Num b) = Num (a - b)"
| "js_sub _ _ = NaN"

text \<open>\<^verbatim>\<open>a < b\<close> and \<^verbatim>\<open>a >= b\<close>: every comparison with NaN is false.\<close>

fun js_lt :: "jsnum \<Rightarrow> jsnum \<Rightarrow> bool" where
  "js_lt (Num a) (Num b) = (a < b)"
| "js_lt _ _ = False"

fun js_ge :: "jsnum \<Rightarrow> jsnum \<Rightarrow> bool" where
  "js_ge (Num a) (Num b) = (a \<ge> b)"
| "js_ge _ _ = False"

text \<open>
  The bitwise operators first convert both operands with ToInt32 (NaN becomes 0, any
  other number is reduced modulo \<open>2 ^ 32\<close>) and give back the signed reading of the
  32-bit result.
\<close>

fun ToInt32 :: "jsnum \<Rightarrow> 32 word" where
  "ToInt32 NaN = 0"
| "ToInt32 (Num i) = word_of_int i"

definition js_xor :: "jsnum \<Rightarrow> jsnum \<Rightarrow> jsnum" where
  "js_xor a b = Num (sint (ToInt32 a XOR ToInt32 b))"

definition js_and :: "jsnum \<Rightarrow> jsnum \<Rightarrow> jsnum" where
  "js_and a b = Num (sint (ToInt32 a AND ToInt32 b))"

text \<open>\<^verbatim>\<open>-(c)\<close> for a boolean \<open>c\<close>: \<open>-1\<close> for true, (negative) zero for false.\<close>

definition js_neg_bool :: "bool \<Rightarrow> jsnum" where
  "js_neg_bool c = (if c then Num (- 1) else Num 0)"

text \<open>\<^verbatim>\<open>x || 0\<close> on a map lookup: undefined, NaN and 0 are falsy.\<close>

fun or_zero :: "jsnum option \<Rightarrow> jsnum" where
  "or_zero None = Num 0"
| "or_zero (Some NaN) = Num 0"
| "or_zero (Some (Num i)) = Num i"

text \<open>
  The expression of lines 107 and 147 that picks the later of two timestamps:
  \<^verbatim>\<open>a ^ ((a ^ b) & -(a < b))\<close>.
\<close>

definition later_timestamp :: "jsnum \<Rightarrow> jsnum \<Rightarrow> jsnum" where
  "later_timestamp a b = js_xor a (js_and (js_xor a b) (js_neg_bool (js_lt a b)))"

definition in_int32 :: "int \<Rightarrow> bool" where
  "in_int32 i \<longleftrightarrow> - (2 ^ 31) \<le> i \<and> i < 2 ^ 31"

section \<open>The rate-limit cache\<close>

text \<open>
  The headers that \<^verbatim>\<open>setOrEditRateLimitCache\<close> reads, after conversion: the three
  numeric ones as \<^verbatim>\<open>Number(...)\<close> returns them, the global flag by its truthiness.
\<close>

record header =
  x_ratelimit_remaining :: jsnum
  x_ratelimit_reset :: jsnum
  retry_after :: jsnum
  x_ratelimit_global :: bool

type_synonym rate_limits = "string \<rightharpoonup> jsnum"

text \<open>
  \<^verbatim>\<open>setOrEditRateLimitCache(endpoint, header, edit, statusCode, name)\<close>, lines 101-122.
  The map \<^verbatim>\<open>this.rateLimitCollection\<close> is passed in and returned; \<open>now\<close> is the value
  of \<^verbatim>\<open>Date.now()\<close>; \<^verbatim>\<open>name\<close> only feeds the logger and is left out.
\<close>

definition setOrEditRateLimitCache ::
  "rate_limits \<Rightarrow> string \<Rightarrow> header \<Rightarrow> bool \<Rightarrow> nat \<Rightarrow> int \<Rightarrow> rate_limits" where
  "setOrEditRateLimitCache rl endpoint h edit statusCode now =
     (let discordHeader = x_ratelimit_remaining h in
      if discordHeader = Num 0 \<or> statusCode = 429 then
        (let discordResetTime = js_mul (x_ratelimit_reset h) (Num 1000);
             discordRetryAfter = js_add (retry_after h) (Num now);
             timestamp = later_timestamp discordResetTime discordRetryAfter
         in if x_ratelimit_global h
            then rl(''global'' \<mapsto> discordRetryAfter)
            else rl(endpoint \<mapsto> timestamp))
      else if edit then rl(endpoint := None)
      else rl)"

section \<open>Transport outcomes\<close>

text \<open>
  \<^verbatim>\<open>this.superagent(...)\<close> returns a promise. It resolves with a response, of which the
  handler reads \<^verbatim>\<open>status\<close> and \<^verbatim>\<open>header\<close>, or it rejects with an error. An error
  raised for an HTTP status carries \<^verbatim>\<open>error.status\<close> and \<^verbatim>\<open>error.response.header\<close>;
  any other failure has no status.
\<close>

record response =
  status :: nat
  resp_header :: header

datatype error = HttpError nat header | Failure string

datatype outcome = Resolved response | Rejected error

text \<open>\<^verbatim>\<open>error.status === 429\<close>\<close>

fun is_rate_limited :: "error \<Rightarrow> bool" where
  "is_rate_limited (HttpError st h) = (st = 429)"
| "is_rate_limited (Failure m) = False"

section \<open>conditionalsHandler up to its first suspension\<close>

text \<open>
  \<^verbatim>\<open>conditionalsHandler\<close> runs without interruption until it either awaits a transport
  call or has armed the timer of line 151. The three transport calls are told apart,
  since what follows a call depends on the place: line 139 (no lockout entry at all),
  line 153 (inside the timer callback) and line 172 (lockout entries present, but past).
\<close>

datatype site = Unlimited | Timed | Expired

datatype action = Call site | Sleep jsnum

definition conditionalsHandler :: "rate_limits \<Rightarrow> string \<Rightarrow> int \<Rightarrow> action" where
  "conditionalsHandler rl endpoint now =
     (if rl endpoint = None \<and> rl ''global'' = None then Call Unlimited
      else
        (let endpointTimestamp = or_zero (rl endpoint);
             globalTimestamp = or_zero (rl ''global'');
             timestamp = later_timestamp endpointTimestamp globalTimestamp
         in if js_ge timestamp (Num now) then Sleep (js_sub timestamp (Num now))
            else Call Expired))"

text \<open>\<^verbatim>\<open>setTimeout(f, d)\<close> at time \<open>now\<close>: \<open>f\<close> runs no earlier than \<open>now + d\<close>; a
  delay that is negative or NaN counts as none.\<close>

fun timer_due :: "int \<Rightarrow> jsnum \<Rightarrow> int" where
  "timer_due now NaN = now"
| "timer_due now (Num d) = now + max d 0"

section \<open>The handler as a transition system\<close>

text \<open>
  JavaScript runs one task at a time, and a task together with the promise reactions it
  triggers runs to completion. The tasks that touch the handler are: a caller invoking
  \<^verbatim>\<open>request\<close>, a transport call settling, and a timer firing. Every submission gets the
  next free number; the promise \<^verbatim>\<open>tail\<close> it stores in \<^verbatim>\<open>queueCollection\<close> is
  identified by that number. The payload (headers, body, URL suffix) is handed
  unchanged to every transport call and decides nothing, so it is not part of the state.
\<close>

record webhook =
  wh_id :: string
  wh_token :: string

text \<open>\<^verbatim>\<open>const endpoint = `${id}/${token}`\<close>\<close>

definition endpoint_of :: "webhook \<Rightarrow> string" where
  "endpoint_of w = wh_id w @ ''/'' @ wh_token w"

datatype phase =
    Queued nat
  | Sleeping int
  | Retrying
  | Calling site
  | Settled outcome

text \<open>
  \<open>Queued q\<close>: \<^verbatim>\<open>queue.then(...)\<close> waits for the tail of submission \<open>q\<close>.
  \<open>Sleeping due\<close>: the timer of line 151 is armed. \<open>Retrying\<close>: the zero-delay timer of
  line 183 is armed. \<open>Calling site\<close>: the transport call made at \<open>site\<close> is pending.
  \<open>Settled out\<close>: the promise \<^verbatim>\<open>request\<close> has settled, and the caller of
  \<^verbatim>\<open>request\<close> has received \<open>out\<close>.
\<close>

record state =
  rateLimitCollection :: rate_limits
  queueCollection :: "string \<rightharpoonup> nat"
  jobs :: "(webhook \<times> phase) list"
  clock :: int

definition init :: "int \<Rightarrow> state" where
  "init t0 = \<lparr>rateLimitCollection = Map.empty, queueCollection = Map.empty, jobs = [], clock = t0\<rparr>"

definition phase_of :: "state \<Rightarrow> nat \<Rightarrow> phase option" where
  "phase_of s r = (if r < length (jobs s) then Some (snd (jobs s ! r)) else None)"

definition job_endpoint :: "state \<Rightarrow> nat \<Rightarrow> string" where
  "job_endpoint s r = endpoint_of (fst (jobs s ! r))"

definition set_phase :: "nat \<Rightarrow> phase \<Rightarrow> state \<Rightarrow> state" where
  "set_phase r p s = s\<lparr>jobs := (jobs s)[r := (fst (jobs s ! r), p)]\<rparr>"

text \<open>The phase a submission is in once \<^verbatim>\<open>conditionalsHandler\<close> has been entered.\<close>

definition enter :: "rate_limits \<Rightarrow> string \<Rightarrow> int \<Rightarrow> phase" where
  "enter rl endpoint now =
     (case conditionalsHandler rl endpoint now of
        Call s \<Rightarrow> Calling s
      | Sleep d \<Rightarrow> Sleeping (timer_due now d))"

text \<open>
  The promise \<^verbatim>\<open>request\<close> of submission \<open>r\<close> settles with \<open>out\<close>. The \<^verbatim>\<open>finally\<close>
  block of lines 65-69 deletes the queue entry if it still holds this submission's tail;
  the tail settles, so every submission chained to it enters \<^verbatim>\<open>conditionalsHandler\<close>.
\<close>

definition release :: "rate_limits \<Rightarrow> int \<Rightarrow> nat \<Rightarrow> webhook \<times> phase \<Rightarrow> webhook \<times> phase" where
  "release rl now r j =
     (if snd j = Queued r then (fst j, enter rl (endpoint_of (fst j)) now) else j)"

definition settle :: "nat \<Rightarrow> outcome \<Rightarrow> state \<Rightarrow> state" where
  "settle r out s =
     (let endpoint = job_endpoint s r;
          settled = (jobs s)[r := (fst (jobs s ! r), Settled out)]
      in s\<lparr>queueCollection :=
              (if queueCollection s endpoint = Some r
               then (queueCollection s)(endpoint := None)
               else queueCollection s),
            jobs := map (release (rateLimitCollection s) (clock s) r) settled\<rparr>)"

datatype event = Submit webhook | TransportSettles nat outcome | TimerFires nat

text \<open>\<^verbatim>\<open>request(webhook, req, type)\<close>, lines 52-61, and the start of the chained callback
  when the queue it is chained to has already settled.\<close>

definition request :: "webhook \<Rightarrow> state \<Rightarrow> state" where
  "request w s =
     (let endpoint = endpoint_of w;
          r = length (jobs s);
          start = enter (rateLimitCollection s) endpoint (clock s);
          p = (case queueCollection s endpoint of
                 None \<Rightarrow> start
               | Some q \<Rightarrow>
                   (case phase_of s q of
                      Some (Settled out) \<Rightarrow> start
                    | _ \<Rightarrow> Queued q))
      in s\<lparr>queueCollection := (queueCollection s)(endpoint \<mapsto> r), jobs := jobs s @ [(w, p)]\<rparr>)"

text \<open>
  What follows the transport call of submission \<open>r\<close> made at \<open>site\<close>: lines 140-143,
  154-155 and 173-175 on a response; the handlers of lines 156-166 (timer callback) and
  178-195 on an error.
\<close>

definition on_response :: "nat \<Rightarrow> site \<Rightarrow> response \<Rightarrow> state \<Rightarrow> state" where
  "on_response r site resp s =
     (let endpoint = job_endpoint s r;
          rl = setOrEditRateLimitCache (rateLimitCollection s) endpoint (resp_header resp)
                 (site \<noteq> Unlimited) (status resp) (clock s);
          qc = (if site = Unlimited then (queueCollection s)(endpoint := None)
                else queueCollection s)
      in settle r (Resolved resp) (s\<lparr>rateLimitCollection := rl, queueCollection := qc\<rparr>))"

definition on_error :: "nat \<Rightarrow> site \<Rightarrow> error \<Rightarrow> state \<Rightarrow> state" where
  "on_error r site err s =
     (case err of
        HttpError st h \<Rightarrow>
          if st = 429 then
            (let endpoint = job_endpoint s r;
                 rl = setOrEditRateLimitCache (rateLimitCollection s) endpoint h False 429 (clock s)
             in set_phase r (if site = Timed then enter rl endpoint (clock s) else Retrying)
                  (s\<lparr>rateLimitCollection := rl\<rparr>))
          else settle r (Rejected err) s
      | Failure m \<Rightarrow> settle r (Rejected err) s)"

definition on_timer :: "nat \<Rightarrow> state \<Rightarrow> state option" where
  "on_timer r s =
     (case phase_of s r of
        Some (Sleeping due) \<Rightarrow>
          if due \<le> clock s then Some (set_phase r (Calling Timed) s) else None
      | Some Retrying \<Rightarrow>
          Some (set_phase r (enter (rateLimitCollection s) (job_endpoint s r) (clock s)) s)
      | _ \<Rightarrow> None)"

text \<open>One task at time \<open>t\<close>. The clock never runs backwards; an event that cannot happen
  in the state (no such pending call, no such timer, timer not yet due) gives \<open>None\<close>.\<close>

fun perform :: "event \<Rightarrow> state \<Rightarrow> state option" where
  "perform (Submit w) s = Some (request w s)"
| "perform (TransportSettles r out) s =
     (case phase_of s r of
        Some (Calling site) \<Rightarrow>
          (case out of
             Resolved resp \<Rightarrow> Some (on_response r site resp s)
           | Rejected err \<Rightarrow> Some (on_error r site err s))
      | _ \<Rightarrow> None)"
| "perform (TimerFires r) s = on_timer r s"

definition step :: "state \<Rightarrow> int \<times> event \<Rightarrow> state option" where
  "step s te = (if fst te < clock s then None else perform (snd te) (s\<lparr>clock := fst te\<rparr>))"

fun run :: "state \<Rightarrow> (int \<times> event) list \<Rightarrow> state option" where
  "run s [] = Some s"
| "run s (te # tes) = (case step s te of None \<Rightarrow> None | Some s' \<Rightarrow> run s' tes)"

text \<open>Observations on the result of a run.\<close>

definition lockout_at :: "state option \<Rightarrow> string \<Rightarrow> jsnum option" where
  "lockout_at so k = (case so of None \<Rightarrow> None | Some s \<Rightarrow> rateLimitCollection s k)"

definition tail_at :: "state option \<Rightarrow> string \<Rightarrow> nat option" where
  "tail_at so k = (case so of None \<Rightarrow> None | Some s \<Rightarrow> queueCollection s k)"

definition phase_at :: "state option \<Rightarrow> nat \<Rightarrow> phase option" where
  "phase_at so r = (case so of None \<Rightarrow> None | Some s \<Rightarrow> phase_of s r)"

definition clock_at :: "state option \<Rightarrow> int option" where
  "clock_at so = map_option clock so"

definition completes :: "state option \<Rightarrow> bool" where
  "completes so = (case so of None \<Rightarrow> False | Some s \<Rightarrow> True)"

definition decision_at :: "state option \<Rightarrow> string \<Rightarrow> int \<Rightarrow> action option" where
  "decision_at so endpoint now =
     (case so of None \<Rightarrow> None
      | Some s \<Rightarrow> Some (conditionalsHandler (rateLimitCollection s) endpoint now))"





text \<open>What the caller of \<^verbatim>\<open>request\<close> may have received: anything but a rejection with
  status 429.\<close>

fun no_429_surfaced :: "webhook \<times> phase \<Rightarrow> bool" where
  "no_429_surfaced (w, Settled (Rejected err)) = (\<not> is_rate_limited err)"
| "no_429_surfaced (w, p) = True"

text \<open>The invariant: no submission has settled with a rate-limit rejection.\<close>

definition clean :: "state \<Rightarrow> bool" where
  "clean s = list_all no_429_surfaced (jobs s)"

section \<open>Scenarios\<close>

definition t_start :: int where
  "t_start = 1700000000000"

definition w1 :: webhook where
  "w1 = \<lparr>wh_id = ''1'', wh_token = ''t''\<rparr>"

definition w2 :: webhook where
  "w2 = \<lparr>wh_id = ''2'', wh_token = ''u''\<rparr>"

definition ok :: response where
  "ok = \<lparr>status = 204, resp_header = \<lparr>x_ratelimit_remaining = Num 4,
     x_ratelimit_reset = Num 1700000001, retry_after = NaN, x_ratelimit_global = False\<rparr>\<rparr>"

definition exhausted :: "int \<Rightarrow> response" where
  "exhausted reset = \<lparr>status = 204, resp_header = \<lparr>x_ratelimit_remaining = Num 0,
     x_ratelimit_reset = Num reset, retry_after = NaN, x_ratelimit_global = False\<rparr>\<rparr>"

definition global_429 :: header where
  "global_429 = \<lparr>x_ratelimit_remaining = Num 0, x_ratelimit_reset = Num 1700000005,
     retry_after = Num 2000, x_ratelimit_global = True\<rparr>"

definition route_429 :: header where
  "route_429 = \<lparr>x_ratelimit_remaining = Num 0, x_ratelimit_reset = Num 1700000005,
     retry_after = Num 2000, x_ratelimit_global = False\<rparr>"

definition no_headers :: header where
  "no_headers = \<lparr>x_ratelimit_remaining = NaN, x_ratelimit_reset = NaN,
     retry_after = NaN, x_ratelimit_global = False\<rparr>"

text \<open>Three submissions for one endpoint; the first one completes while the second is
  chained behind it, the third arrives while the second is on the wire.\<close>

definition fifo_trace :: "(int \<times> event) list" where
  "fifo_trace = [(t_start, Submit w1), (t_start + 10, Submit w1),
     (t_start + 200, TransportSettles 0 (Resolved ok)), (t_start + 300, Submit w1)]"

text \<open>A global rate-limit rejection for one endpoint, then a submission for another.\<close>

definition global_trace :: "(int \<times> event) list" where
  "global_trace = [(t_start, Submit w1),
     (t_start + 100, TransportSettles 0 (Rejected (HttpError 429 global_429))),
     (t_start + 200, Submit w2)]"

text \<open>A response that uses up the quota, and a second submission made after the reset
  time whose response uses up the quota again.\<close>

definition refill_trace :: "(int \<times> event) list" where
  "refill_trace = [(t_start, Submit w1),
     (t_start + 100, TransportSettles 0 (Resolved (exhausted 1700000005))),
     (t_start + 6000, Submit w1),
     (t_start + 6100, TransportSettles 1 (Resolved (exhausted 1700000011)))]"

text \<open>The state right after a first submission: its transport call is pending.\<close>

definition in_flight :: "site \<Rightarrow> rate_limits \<Rightarrow> state" where
  "in_flight site rl = \<lparr>rateLimitCollection = rl, queueCollection = [endpoint_of w1 \<mapsto> 0],
     jobs = [(w1, Calling site)], clock = t_start\<rparr>"

definition locked :: state where
  "locked = \<lparr>rateLimitCollection = [''global'' \<mapsto> Num 1700000002100],
     queueCollection = Map.empty, jobs = [], clock = t_start + 3000\<rparr>"

definition unlock_trace :: "(int \<times> event) list" where
  "unlock_trace = [(t_start + 3000, Submit w2),
     (t_start + 3100, TransportSettles 0 (Resolved ok))]"

section \<open>Facts about the timestamp selection\<close>

lemma later_timestamp_Num:
  "later_timestamp (Num a) (Num b) = Num (sint (word_of_int (max a b) :: 32 word))"
  by (simp add: later_timestamp_def js_xor_def js_and_def js_neg_bool_def max_def)

lemma sint_in_int32: "in_int32 i \<Longrightarrow> sint (word_of_int i :: 32 word) = i"
  unfolding in_int32_def
  by (simp add: signed_of_int signed_take_bit_int_eq_self)

lemma in_int32_max: "in_int32 a \<Longrightarrow> in_int32 b \<Longrightarrow> in_int32 (max a b)"
  by (simp add: max_def)

lemma later_timestamp_in_int32:
  "in_int32 a \<Longrightarrow> in_int32 b \<Longrightarrow> later_timestamp (Num a) (Num b) = Num (max a b)"
  by (simp add: later_timestamp_Num sint_in_int32 in_int32_max)

lemma later_timestamp_is_int32: "\<exists>i. later_timestamp a b = Num i \<and> in_int32 i"
proof -
  have "in_int32 (sint (w :: 32 word))" for w
    using sint_ge [of w] sint_lt [of w] by (simp add: in_int32_def)
  then show ?thesis by (simp add: later_timestamp_def js_xor_def)
qed

section \<open>Facts about the transition system\<close>

lemma endpoint_of_not_global: "endpoint_of w \<noteq> ''global''"
proof
  assume "endpoint_of w = ''global''"
  then have "set (endpoint_of w) = set ''global''" by simp
  moreover have "CHR ''/'' \<in> set (endpoint_of w)" by (simp add: endpoint_of_def)
  ultimately show False by simp
qed

lemma job_endpoint_not_global: "job_endpoint s r \<noteq> ''global''"
  by (simp add: job_endpoint_def endpoint_of_not_global)

lemma job_endpoint_upd [simp]:
  "job_endpoint (s\<lparr>rateLimitCollection := rl\<rparr>) r = job_endpoint s r"
  "job_endpoint (s\<lparr>queueCollection := qc\<rparr>) r = job_endpoint s r"
  "job_endpoint (s\<lparr>clock := t\<rparr>) r = job_endpoint s r"
  by (simp_all add: job_endpoint_def)

lemma phase_of_upd [simp]:
  "phase_of (s\<lparr>rateLimitCollection := rl\<rparr>) r = phase_of s r"
  "phase_of (s\<lparr>queueCollection := qc\<rparr>) r = phase_of s r"
  "phase_of (s\<lparr>clock := t\<rparr>) r = phase_of s r"
  by (simp_all add: phase_of_def)

lemma phase_of_Some_less: "phase_of s r = Some p \<Longrightarrow> r < length (jobs s)"
  by (simp add: phase_of_def split: if_splits)


lemma phase_of_settle_self:
  "r < length (jobs s) \<Longrightarrow> phase_of (settle r out s) r = Some (Settled out)"
  by (simp add: phase_of_def settle_def Let_def release_def)



lemma rl_settle [simp]: "rateLimitCollection (settle r out s) = rateLimitCollection s"
  by (simp add: settle_def Let_def)

lemma rl_set_phase [simp]: "rateLimitCollection (set_phase r p s) = rateLimitCollection s"
  by (simp add: set_phase_def)

lemma rl_request [simp]: "rateLimitCollection (request w s) = rateLimitCollection s"
  by (simp add: request_def Let_def)

lemma rl_on_response:
  "rateLimitCollection (on_response r site resp s) =
     setOrEditRateLimitCache (rateLimitCollection s) (job_endpoint s r) (resp_header resp)
       (site \<noteq> Unlimited) (status resp) (clock s)"
  by (simp add: on_response_def Let_def)

lemma rl_on_error:
  "rateLimitCollection (on_error r site err s) =
     (if is_rate_limited err
      then setOrEditRateLimitCache (rateLimitCollection s) (job_endpoint s r)
             (case err of HttpError st h \<Rightarrow> h) False 429 (clock s)
      else rateLimitCollection s)"
  by (cases err) (simp_all add: on_error_def Let_def)

lemma rl_on_timer: "on_timer r s = Some s' \<Longrightarrow> rateLimitCollection s' = rateLimitCollection s"
  by (auto simp add: on_timer_def split: option.splits phase.splits if_splits)

lemma step_TransportSettles:
  assumes "step s (t, TransportSettles r out) = Some s'"
  obtains site where "phase_of s r = Some (Calling site)" and
    "s' = (case out of Resolved resp \<Rightarrow> on_response r site resp (s\<lparr>clock := t\<rparr>)
                     | Rejected err \<Rightarrow> on_error r site err (s\<lparr>clock := t\<rparr>))"
  using assms
  by (auto simp add: step_def split: if_splits option.splits phase.splits outcome.splits)

subsection \<open>The global entry stays\<close>

lemma setOrEdit_keeps_global:
  "endpoint \<noteq> ''global'' \<Longrightarrow> rl ''global'' \<noteq> None \<Longrightarrow>
   setOrEditRateLimitCache rl endpoint h edit statusCode now ''global'' \<noteq> None"
  by (simp add: setOrEditRateLimitCache_def Let_def)

lemma on_response_keeps_global:
  "rateLimitCollection s ''global'' \<noteq> None \<Longrightarrow>
   rateLimitCollection (on_response r site resp s) ''global'' \<noteq> None"
  unfolding rl_on_response by (rule setOrEdit_keeps_global [OF job_endpoint_not_global])

lemma on_error_keeps_global:
  "rateLimitCollection s ''global'' \<noteq> None \<Longrightarrow>
   rateLimitCollection (on_error r site err s) ''global'' \<noteq> None"
  unfolding rl_on_error
  by (simp del: not_None_eq add: setOrEdit_keeps_global [OF job_endpoint_not_global])

lemma perform_keeps_global:
  assumes "perform e s = Some s'" and "rateLimitCollection s ''global'' \<noteq> None"
  shows "rateLimitCollection s' ''global'' \<noteq> None"
proof (cases e)
  case (Submit w)
  with assms show ?thesis by auto
next
  case (TransportSettles r out)
  with assms obtain site where
    s': "s' = (case out of Resolved resp \<Rightarrow> on_response r site resp s
                         | Rejected err \<Rightarrow> on_error r site err s)"
    by (auto split: option.splits phase.splits outcome.splits)
  show ?thesis
    unfolding s' using assms(2)
    by (cases out) (simp_all del: not_None_eq add: on_response_keeps_global on_error_keeps_global)
next
  case (TimerFires r)
  with assms show ?thesis by (auto dest: rl_on_timer)
qed

lemma step_keeps_global:
  assumes "step s te = Some s'" and "rateLimitCollection s ''global'' \<noteq> None"
  shows "rateLimitCollection s' ''global'' \<noteq> None"
  using assms perform_keeps_global [of "snd te" "s\<lparr>clock := fst te\<rparr>" s']
  by (simp add: step_def split: if_splits)

lemma run_keeps_global:
  "run s tes = Some s' \<Longrightarrow> rateLimitCollection s ''global'' \<noteq> None \<Longrightarrow>
   rateLimitCollection s' ''global'' \<noteq> None"
proof (induction tes arbitrary: s)
  case Nil
  then show ?case by simp
next
  case (Cons te tes)
  then show ?case by (auto split: option.splits dest: step_keeps_global)
qed

lemma global_forces_comparison:
  "rl ''global'' \<noteq> None \<Longrightarrow> conditionalsHandler rl endpoint now \<noteq> Call Unlimited"
  by (simp add: conditionalsHandler_def Let_def)

subsection \<open>A settled submission stays settled\<close>




subsection \<open>After a rate-limit rejection\<close>




lemma job_endpoint_set_phase [simp]: "job_endpoint (set_phase r p s) r' = job_endpoint s r'"
  by (cases "r < length (jobs s)")
     (auto simp add: job_endpoint_def set_phase_def nth_list_update list_update_beyond)

lemma length_jobs_set_phase [simp]: "length (jobs (set_phase r p s)) = length (jobs s)"
  by (simp add: set_phase_def)

lemma length_jobs_upd [simp]:
  "length (jobs (s\<lparr>rateLimitCollection := rl\<rparr>)) = length (jobs s)"
  by simp

lemma clock_set_phase [simp]: "clock (set_phase r p s) = clock s"
  by (simp add: set_phase_def)






subsection \<open>No rate-limit rejection reaches a caller\<close>




lemma clean_upd [simp]:
  "clean (s\<lparr>rateLimitCollection := rl\<rparr>) = clean s"
  "clean (s\<lparr>queueCollection := qc\<rparr>) = clean s"
  "clean (s\<lparr>clock := t\<rparr>) = clean s"
  by (simp_all add: clean_def)












lemma completesE: "completes so \<Longrightarrow> \<exists>s. so = Some s"
  by (cases so) (simp_all add: completes_def)

section \<open>Recording a lockout\<close>

text \<open>
  C1: a response with remaining quota 0 or status 429 is meant to record, as the
  endpoint's unlock time, the maximum of the reset timestamp (reset seconds times 1000)
  and the retry-after timestamp (retry-after plus the current time). For a status 429
  that is not marked global, with reset \<open>1700000005\<close> and retry-after \<open>2000\<close> at
  time \<open>1700000000000\<close>, the value recorded under the endpoint key is \<open>-807044216\<close>,
  while the maximum is \<open>1700000005000\<close>: the expression of line 107 has cut the later
  timestamp down to 32 bits.
\<close>

theorem endpoint_lockout_truncated:
  "setOrEditRateLimitCache Map.empty ''1/t'' route_429 False 429 1700000000000 ''1/t''
     = Some (Num (- 807044216))
 \<and> Num (- 807044216) \<noteq> Num (max (1700000005 * 1000) (2000 + 1700000000000))"
  by (simp add: setOrEditRateLimitCache_def route_429_def later_timestamp_Num)

text \<open>
  C2: the expression \<^verbatim>\<open>a ^ ((a ^ b) & -(a < b))\<close> is meant to be the maximum of two
  millisecond timestamps. At \<open>a = 1700000000000\<close> and \<open>b = 1700000005000\<close> it yields
  \<open>-807044216\<close>, the later timestamp cut down to 32 bits, and not the maximum.
\<close>

theorem later_timestamp_truncates:
  "later_timestamp (Num 1700000000000) (Num 1700000005000) = Num (- 807044216)
 \<and> Num (- 807044216) \<noteq> Num (max 1700000000000 1700000005000)"
  by (simp add: later_timestamp_Num)

text \<open>
  C7, as stated, fails: for a response that triggers a lockout and is marked global, the
  value stored under the global key is the retry-after timestamp, here
  \<open>1700000002000\<close>, while the maximum of the two timestamps is \<open>1700000005000\<close>.
\<close>

theorem global_lockout_counterexample:
  "setOrEditRateLimitCache Map.empty ''1/t'' global_429 False 429 1700000000000 ''global''
     = Some (Num 1700000002000)
 \<and> Num 1700000002000 \<noteq> Num (max (1700000005 * 1000) (2000 + 1700000000000))"
  by (simp add: setOrEditRateLimitCache_def global_429_def)

text \<open>
  C7, amended: for every response that triggers a lockout (remaining-quota header 0 or
  status 429) and is marked global, the retry-after timestamp (retry-after plus the
  current time) is stored under the reserved global key, and no other key of the cache
  changes; in particular nothing is stored under the endpoint key.
\<close>

theorem global_lockout:
  assumes "x_ratelimit_remaining h = Num 0 \<or> statusCode = 429"
    and "x_ratelimit_global h"
  shows "setOrEditRateLimitCache rl endpoint h edit statusCode now
           = rl(''global'' \<mapsto> js_add (retry_after h) (Num now))"
  using assms by (auto simp add: setOrEditRateLimitCache_def Let_def)

theorem global_lockout_witness:
  "(x_ratelimit_remaining global_429 = Num 0 \<or> (429::nat) = 429)
 \<and> x_ratelimit_global global_429
 \<and> setOrEditRateLimitCache Map.empty ''1/t'' global_429 False 429 1700000000000
     = [''global'' \<mapsto> Num 1700000002000]"
  using global_lockout [of global_429 429 Map.empty "''1/t''" False 1700000000000]
  by (simp add: global_429_def)

text \<open>
  C10: when the remaining-quota header does not convert to 0 (absent and non-numeric
  headers convert to NaN), the status code is not 429 and \<^verbatim>\<open>edit\<close> is false,
  \<^verbatim>\<open>setOrEditRateLimitCache\<close> returns the cache as it was.
\<close>

theorem cache_unchanged:
  assumes "x_ratelimit_remaining h \<noteq> Num 0" and "statusCode \<noteq> 429" and "\<not> edit"
  shows "setOrEditRateLimitCache rl endpoint h edit statusCode now = rl"
  using assms by (simp add: setOrEditRateLimitCache_def)

theorem cache_unchanged_witness:
  "x_ratelimit_remaining no_headers \<noteq> Num 0 \<and> (200::nat) \<noteq> 429
 \<and> setOrEditRateLimitCache [''1/t'' \<mapsto> Num 5] ''1/t'' no_headers False 200 1700000000000
     = [''1/t'' \<mapsto> Num 5]"
  using cache_unchanged [of no_headers 200 False "[''1/t'' \<mapsto> Num 5]" "''1/t''" 1700000000000]
  by (simp add: no_headers_def)

section \<open>Queueing per endpoint\<close>

text \<open>
  C3: submissions for one endpoint are meant to run one after the other. In
  \<open>fifo_trace\<close> submission 2 arrives while the transport call of submission 1 is
  pending, and its own transport call starts at once: at the end both calls are pending
  together. Line 141 has removed the queue entry that submission 2 should have chained to.
\<close>

theorem fifo_violated:
  "phase_at (run (init t_start) fifo_trace) 1 = Some (Calling Unlimited)
 \<and> phase_at (run (init t_start) fifo_trace) 2 = Some (Calling Unlimited)"
  by code_simp

text \<open>
  C6: the queue entry of an endpoint is meant to go only when the settling operation's
  tail is still the stored one. After the first two events of \<open>fifo_trace\<close> the entry
  holds the tail of submission 1, which waits for submission 0; when the call of
  submission 0 completes, line 141 deletes the entry although submission 1 is still
  outstanding.
\<close>

theorem queue_entry_lost:
  "tail_at (run (init t_start) (take 2 fifo_trace)) (endpoint_of w1) = Some 1
 \<and> phase_at (run (init t_start) (take 2 fifo_trace)) 1 = Some (Queued 0)
 \<and> tail_at (run (init t_start) (take 3 fifo_trace)) (endpoint_of w1) = None
 \<and> phase_at (run (init t_start) (take 3 fifo_trace)) 1 = Some (Calling Unlimited)"
  by code_simp

section \<open>Waiting for a lockout\<close>

text \<open>
  Where the timestamps fit into 32 bits, \<^verbatim>\<open>conditionalsHandler\<close> does wait for a global
  entry that is later than the endpoint's own: the timer it arms is due exactly then.
\<close>

lemma global_dominates_in_int32:
  assumes "rl ''global'' = Some (Num G)" and "or_zero (rl endpoint) = Num E" and "E \<le> G"
    and "in_int32 G" and "in_int32 E" and "now < G"
  shows "conditionalsHandler rl endpoint now = Sleep (Num (G - now))"
    and "timer_due now (Num (G - now)) = G"
  using assms by (simp_all add: conditionalsHandler_def Let_def later_timestamp_in_int32 max_def)

text \<open>
  C4: with the global entry at \<open>G\<close> and no entry of its own, an endpoint's call is meant
  to start no earlier than \<open>G\<close>. In \<open>global_trace\<close> the global entry is
  \<open>1700000002100\<close>, the endpoint of the second webhook has no entry, and the call for
  it is pending at time \<open>1700000000200\<close>: line 147 cut the global timestamp down to 32
  bits, which made it look past.
\<close>

theorem global_lockout_ignored:
  "lockout_at (run (init t_start) global_trace) ''global'' = Some (Num 1700000002100)
 \<and> lockout_at (run (init t_start) global_trace) (endpoint_of w2) = None
 \<and> clock_at (run (init t_start) global_trace) = Some 1700000000200
 \<and> phase_at (run (init t_start) global_trace) 1 = Some (Calling Expired)"
  by code_simp

section \<open>Transport errors\<close>



section \<open>Clearing a lockout\<close>

text \<open>
  C8, as stated, fails: in \<open>refill_trace\<close> the second submission is made after the
  endpoint's lockout has run out, its transport call is made at once and succeeds, but
  the response reports a remaining quota of 0, so the endpoint's lockout entry is
  written anew and not removed.
\<close>

theorem confirm_clear_counterexample:
  "phase_at (run (init t_start) (take 3 refill_trace)) 1 = Some (Calling Expired)
 \<and> phase_at (run (init t_start) refill_trace) 1
     = Some (Settled (Resolved (exhausted 1700000011)))
 \<and> lockout_at (run (init t_start) refill_trace) (endpoint_of w1) = Some (Num (- 807038216))"
  by code_simp

text \<open>
  C8, amended: when a transport call succeeds with a response that does not itself
  signal a lockout (remaining quota not 0, status not 429), the submission settles with
  that response, and what happens to the cache depends on the place of the call. For a
  call made with lockout entries present (line 172, the unlock time being past, or line
  153, after the wait) \<^verbatim>\<open>setOrEditRateLimitCache\<close> runs with \<^verbatim>\<open>edit = true\<close> and removes
  the endpoint's entry, leaving all other keys alone. For a call made with no entry for
  the endpoint and none for the global key (line 139) it runs with \<^verbatim>\<open>edit = false\<close> and
  the cache stays as it was.
\<close>

theorem confirm_clear:
  assumes "phase_of s r = Some (Calling site)"
    and "step s (t, TransportSettles r (Resolved resp)) = Some s'"
    and "x_ratelimit_remaining (resp_header resp) \<noteq> Num 0" and "status resp \<noteq> 429"
  shows "rateLimitCollection s' =
           (if site = Unlimited then rateLimitCollection s
            else (rateLimitCollection s)(job_endpoint s r := None))
       \<and> phase_of s' r = Some (Settled (Resolved resp))"
proof -
  from assms(1,2) have s': "s' = on_response r site resp (s\<lparr>clock := t\<rparr>)"
    by (auto elim: step_TransportSettles)
  from assms(1) have len: "r < length (jobs s)" by (rule phase_of_Some_less)
  have "rateLimitCollection s' = setOrEditRateLimitCache (rateLimitCollection s)
          (job_endpoint s r) (resp_header resp) (site \<noteq> Unlimited) (status resp) t"
    unfolding s' by (simp add: rl_on_response)
  moreover have "phase_of s' r = Some (Settled (Resolved resp))"
    unfolding s' using len by (simp add: on_response_def Let_def phase_of_settle_self)
  ultimately show ?thesis
    using assms(3,4) by (simp add: setOrEditRateLimitCache_def)
qed

theorem confirm_clear_witness:
  "phase_of (in_flight Expired [''1/t'' \<mapsto> Num 5]) 0 = Some (Calling Expired)
 \<and> lockout_at (Some (in_flight Expired [''1/t'' \<mapsto> Num 5])) ''1/t'' = Some (Num 5)
 \<and> lockout_at (step (in_flight Expired [''1/t'' \<mapsto> Num 5])
       (t_start + 100, TransportSettles 0 (Resolved ok))) ''1/t'' = None"
proof -
  let ?s = "in_flight Expired [''1/t'' \<mapsto> Num 5]"
  have p: "phase_of ?s 0 = Some (Calling Expired)"
    by (simp add: phase_of_def in_flight_def)
  have e: "job_endpoint ?s 0 = ''1/t''"
    by (simp add: job_endpoint_def in_flight_def endpoint_of_def w1_def)
  have "completes (step ?s (t_start + 100, TransportSettles 0 (Resolved ok)))" by code_simp
  then obtain s' where s': "step ?s (t_start + 100, TransportSettles 0 (Resolved ok)) = Some s'"
    by (auto dest: completesE)
  have l: "lockout_at (Some ?s) ''1/t'' = Some (Num 5)"
    by (simp add: lockout_at_def in_flight_def)
  have "rateLimitCollection s' ''1/t'' = None"
    using confirm_clear [OF p s'] by (simp add: e ok_def)
  with p l show ?thesis
    by (simp add: s' lockout_at_def)
qed

section \<open>The global entry\<close>

text \<open>
  C9: nothing deletes the global entry of the rate-limit cache. If it is present in a
  state, it is present in every state reached from there by any sequence of
  submissions, transport outcomes and timers (the deletion of line 119 hits the
  endpoint key, which always contains a slash), and \<^verbatim>\<open>conditionalsHandler\<close> then never
  takes the branch of line 139 for any endpoint: every dispatch goes through the
  timestamp comparison.
\<close>

theorem global_entry_never_deleted:
  assumes "run s tes = Some s'" and "rateLimitCollection s ''global'' \<noteq> None"
  shows "rateLimitCollection s' ''global'' \<noteq> None
       \<and> conditionalsHandler (rateLimitCollection s') endpoint now \<noteq> Call Unlimited"
  using assms by (simp add: run_keeps_global global_forces_comparison)

theorem global_entry_never_deleted_witness:
  "rateLimitCollection locked ''global'' \<noteq> None
 \<and> completes (run locked unlock_trace)
 \<and> lockout_at (run locked unlock_trace) ''global'' \<noteq> None
 \<and> decision_at (run locked unlock_trace) ''1/t'' (t_start + 9000) \<noteq> Some (Call Unlimited)"
proof -
  have g: "rateLimitCollection locked ''global'' \<noteq> None" by (simp add: locked_def)
  have c: "completes (run locked unlock_trace)" by code_simp
  then obtain s' where s': "run locked unlock_trace = Some s'" by (auto dest: completesE)
  from global_entry_never_deleted [OF s' g, of "''1/t''" "t_start + 9000"] g c show ?thesis
    by (simp add: s' lockout_at_def decision_at_def)
qed

end
